theory Spec2Isabelle
  imports Complex_Main
begin

section \<open>Numbers and truthiness\<close>

text \<open>
  JavaScript numbers are modelled as reals: the rounding of IEEE doubles is abstracted
  away. Where a property compares computed coordinates, it is stated with a margin, for
  every point near the computed one, so that it does not rest on exact arithmetic. A
  property that may hold a number or be missing is a \<open>real option\<close>; \<open>None\<close> stands for
  \<open>undefined\<close>, \<open>null\<close> and \<open>NaN\<close>, which are all falsy.
\<close>

text \<open>\<open>v || d\<close> on a number: a falsy left operand (missing, or the number 0) gives \<open>d\<close>.\<close>

definition js_or :: "real option \<Rightarrow> real \<Rightarrow> real" where
  "js_or v d = (case v of None \<Rightarrow> d | Some n \<Rightarrow> if n = 0 then d else n)"

section \<open>Electrode position (ThreeBrainVisualization, calculateElectrodePosition)\<close>

text \<open>The stimulation parameters held by the application state.\<close>

record params =
  frequency :: "real option"
  amplitude :: "real option"
  contact :: "real option"
  condition :: string
  pulse_width :: "real option"

text \<open>The returned object \<open>{ x, y, z }\<close>.\<close>

record position =
  pos_x :: real
  pos_y :: real
  pos_z :: real

text \<open>
  The \<open>switch (contact)\<close> of the source: cases 0 to 3 and the default branch. The
  comparison of a \<open>switch\<close> is strict equality, so a fractional or out-of-range number
  takes the default.
\<close>

definition anchor :: "real \<Rightarrow> position" where
  "anchor c =
     (if c = 0 then \<lparr>pos_x = - 0.8, pos_y = - 0.3, pos_z = 0.2\<rparr>
      else if c = 1 then \<lparr>pos_x = - 0.6, pos_y = - 0.1, pos_z = 0.3\<rparr>
      else if c = 2 then \<lparr>pos_x = - 0.4, pos_y = 0.1, pos_z = 0.4\<rparr>
      else if c = 3 then \<lparr>pos_x = - 0.2, pos_y = 0.3, pos_z = 0.5\<rparr>
      else \<lparr>pos_x = - 0.6, pos_y = 0, pos_z = 0.3\<rparr>)"

definition calculateElectrodePosition :: "params \<Rightarrow> position" where
  "calculateElectrodePosition ps =
     (let c = js_or (contact ps) 0;
          f = js_or (frequency ps) 130;
          a = js_or (amplitude ps) 2.0;
          p = anchor c
      in \<lparr>pos_x = pos_x p + (f - 130) * 0.001,
          pos_y = pos_y p + (a - 2.0) * 0.05,
          pos_z = pos_z p\<rparr>)"

text \<open>The call \<open>position(contact, frequencyHz, amplitudeMA)\<close> on numeric arguments.\<close>

definition position_of :: "real \<Rightarrow> real \<Rightarrow> real \<Rightarrow> position" where
  "position_of c f a =
     calculateElectrodePosition
       \<lparr>frequency = Some f, amplitude = Some a, contact = Some c,
        condition = ''healthy'', pulse_width = Some 90\<rparr>"

text \<open>
  The region of a contact: the points strictly nearer to its anchor than to the anchor
  of every other contact of the table (squared Euclidean distance).
\<close>

definition dist2 :: "position \<Rightarrow> position \<Rightarrow> real" where
  "dist2 p q = (pos_x p - pos_x q)\<^sup>2 + (pos_y p - pos_y q)\<^sup>2 + (pos_z p - pos_z q)\<^sup>2"

definition in_own_region :: "real \<Rightarrow> position \<Rightarrow> bool" where
  "in_own_region c p =
     list_all (\<lambda>j. j = c \<or> dist2 p (anchor c) < dist2 p (anchor j)) [0, 1, 2, 3]"


section \<open>Simulation payload (BrainVisualization)\<close>

text \<open>
  The payload \<open>simulationData\<close>. Every property may be missing (\<open>None\<close>); an array is
  a list. The coordinate axes are common to the field and the tissue grid.
\<close>

record grid =
  x_coords :: "real list option"
  y_coords :: "real list option"
  z_coords :: "real list option"

record field_data = grid +
  field_magnitude :: "real list list list option"

record tissue_data = grid +
  tissue_type :: "int list list list option"
  physical_size :: "real list option"

record contact_data =
  position :: "real list option"
  is_active :: bool

record electrode_data =
  contacts :: "contact_data list option"
  electrode_position :: "real list option"

record simulation_data =
  field_data :: "field_data option"
  tissue_data :: "tissue_data option"
  electrode_data :: "electrode_data option"

section \<open>Trace descriptors\<close>

text \<open>
  Reading a property of \<open>undefined\<close> throws a TypeError, and a call with more arguments
  than the engine accepts throws a RangeError. A computation that may throw returns
  \<open>exn + 'a\<close>, with \<open>Inl\<close> for the exception thrown.
\<close>

datatype exn = TypeError | RangeError

text \<open>\<open>Math.max\<close> of no arguments is \<open>-Infinity\<close>, which is not a real.\<close>

datatype num = NegInfinity | Finite real

fun Math_max :: "real list \<Rightarrow> num" where
  "Math_max [] = NegInfinity"
| "Math_max (v # vs) =
     (case Math_max vs of NegInfinity \<Rightarrow> Finite v | Finite m \<Rightarrow> Finite (max v m))"

text \<open>
  \<open>Math.max(...xs)\<close>: the spread passes every element as an argument of the call. The
  largest number of arguments a call may have depends on the engine; it is the parameter
  \<open>argument_limit\<close> of the model.
\<close>

definition Math_max_spread :: "nat \<Rightarrow> real list \<Rightarrow> exn + num" where
  "Math_max_spread argument_limit xs =
     (if argument_limit < length xs then Inl RangeError else Inr (Math_max xs))"

text \<open>\<open>field_magnitude.flat(3)\<close> on a tensor of three levels of arrays.\<close>

definition flat3 :: "'a list list list \<Rightarrow> 'a list" where
  "flat3 t = concat (concat t)"

text \<open>\<open>xs[i]\<close>: \<open>undefined\<close> out of range.\<close>

definition at_index :: "'a list \<Rightarrow> nat \<Rightarrow> 'a option" where
  "at_index xs i = (if i < length xs then Some (xs ! i) else None)"

record isosurface_trace =
  iso_x :: "real list"
  iso_y :: "real list"
  iso_z :: "real list"
  iso_value :: "int list list list"
  iso_isomin :: real
  iso_isomax :: real
  iso_surface_count :: nat
  iso_colorscale :: "(real \<times> string) list"
  iso_opacity :: real
  iso_name :: string
  iso_showscale :: bool

record colorbar =
  colorbar_title :: string
  titleside :: string
  thickness :: nat
  len :: real

record volume_trace =
  volume_x :: "real list option"
  volume_y :: "real list option"
  volume_z :: "real list option"
  volume_value :: "real list list list"
  isomin :: real
  isomax :: num
  surface_count :: nat
  colorscale :: "(real \<times> string) list"
  opacity :: real
  name :: string
  colorbar :: colorbar

record marker =
  marker_size :: "nat list"
  marker_color :: "string list"
  marker_symbol :: string
  marker_line_color :: string
  marker_line_width :: nat

record scatter_trace =
  scatter_mode :: string
  scatter_x :: "real option list"
  scatter_y :: "real option list"
  scatter_z :: "real option list"
  scatter_marker :: marker
  scatter_name :: string
  scatter_text :: "string list"

text \<open>The \<open>type\<close> property of a trace: \<open>isosurface\<close>, \<open>volume\<close> or \<open>scatter3d\<close>.\<close>

datatype trace = Isosurface isosurface_trace | Volume volume_trace | Scatter3d scatter_trace

section \<open>Trace builders\<close>

definition createTissueTrace :: "tissue_data \<Rightarrow> isosurface_trace option" where
  "createTissueTrace tissueData =
     (case (x_coords tissueData, y_coords tissueData, z_coords tissueData,
            tissue_type tissueData) of
        (Some xs, Some ys, Some zs, Some tt) \<Rightarrow>
          Some \<lparr>iso_x = xs, iso_y = ys, iso_z = zs, iso_value = tt,
                iso_isomin = 0.5, iso_isomax = 2.5, iso_surface_count = 3,
                iso_colorscale = [(0, ''#e8f4fd''), (0.5, ''#fff2cc''), (1, ''#ffe6e6'')],
                iso_opacity = 0.3, iso_name = ''Brain Tissue'', iso_showscale = False\<rparr>
      | _ \<Rightarrow> None)"

text \<open>The body of the \<open>try\<close> block of \<open>createFieldTrace\<close>.\<close>

definition createFieldTrace_try ::
  "nat \<Rightarrow> field_data \<Rightarrow> real \<Rightarrow> exn + volume_trace option" where
  "createFieldTrace_try argument_limit fieldData threshold =
     (case field_magnitude fieldData of
        None \<Rightarrow> Inr None
      | Some m \<Rightarrow>
          if length m = 0 then Inr None
          else
            let flatField = flat3 m
            in (case Math_max_spread argument_limit flatField of
                  Inl e \<Rightarrow> Inl e
                | Inr maxField \<Rightarrow>
                    if maxField = Finite 0 then Inr None
                    else Inr (Some
                      \<lparr>volume_x = x_coords fieldData,
                       volume_y = y_coords fieldData,
                       volume_z = z_coords fieldData,
                       volume_value = m,
                       isomin = threshold,
                       isomax = maxField,
                       surface_count = 5,
                       colorscale =
                         [(0, ''rgba(0,0,255,0)''), (0.2, ''rgba(0,100,255,0.3)''),
                          (0.4, ''rgba(0,255,100,0.5)''), (0.6, ''rgba(255,255,0,0.7)''),
                          (0.8, ''rgba(255,100,0,0.8)''), (1, ''rgba(255,0,0,0.9)'')],
                       opacity = 0.7,
                       name = ''Electric Field'',
                       colorbar =
                         \<lparr>colorbar_title = ''Field Strength (V/m)'', titleside = ''right'',
                          thickness = 15, len = 0.7\<rparr>\<rparr>)))"

text \<open>The \<open>catch\<close> block logs the error and returns \<open>null\<close>.\<close>

definition createFieldTrace :: "nat \<Rightarrow> field_data \<Rightarrow> real \<Rightarrow> volume_trace option" where
  "createFieldTrace argument_limit fieldData threshold =
     (case createFieldTrace_try argument_limit fieldData threshold of
        Inl e \<Rightarrow> None
      | Inr r \<Rightarrow> r)"

text \<open>\<open>contact.position[i]\<close>: throws when the contact has no position.\<close>

definition coordinate :: "nat \<Rightarrow> contact_data \<Rightarrow> exn + real option" where
  "coordinate i c =
     (case position c of None \<Rightarrow> Inl TypeError | Some p \<Rightarrow> Inr (at_index p i))"

text \<open>\<open>xs.map(f)\<close> for a callback that may throw: the first exception ends the loop.\<close>

fun map_exn :: "('a \<Rightarrow> exn + 'b) \<Rightarrow> 'a list \<Rightarrow> exn + 'b list" where
  "map_exn f [] = Inr []"
| "map_exn f (a # as) =
     (case f a of
        Inl e \<Rightarrow> Inl e
      | Inr b \<Rightarrow> (case map_exn f as of Inl e \<Rightarrow> Inl e | Inr bs \<Rightarrow> Inr (b # bs)))"

text \<open>\<open>${i}\<close> in a template string: the index of a contact in decimal.\<close>

function decimal :: "nat \<Rightarrow> string" where
  "decimal i = (if 10 \<le> i then decimal (i div 10) else []) @ [''0123456789'' ! (i mod 10)]"
  by pat_completeness auto
termination
  by (relation "measure id") auto

declare decimal.simps [simp del]

definition contact_text :: "nat \<Rightarrow> contact_data \<Rightarrow> string" where
  "contact_text i c =
     ''Contact '' @ decimal i @ '': '' @ (if is_active c then ''Active'' else ''Inactive'')"

text \<open>The body of the \<open>try\<close> block of \<open>createElectrodeTrace\<close>.\<close>

definition createElectrodeTrace_try :: "electrode_data \<Rightarrow> exn + scatter_trace option" where
  "createElectrodeTrace_try electrodeData =
     (case contacts electrodeData of
        None \<Rightarrow> Inr None
      | Some cs \<Rightarrow>
          if length cs = 0 then Inr None
          else
            (case map_exn (coordinate 0) cs of Inl e \<Rightarrow> Inl e | Inr x \<Rightarrow>
            (case map_exn (coordinate 1) cs of Inl e \<Rightarrow> Inl e | Inr y \<Rightarrow>
            (case map_exn (coordinate 2) cs of Inl e \<Rightarrow> Inl e | Inr z \<Rightarrow>
               let colors = map (\<lambda>c. if is_active c then ''#ff0000'' else ''#888888'') cs;
                   sizes = map (\<lambda>c. if is_active c then 12 else 8) cs
               in Inr (Some
                 \<lparr>scatter_mode = ''markers'',
                  scatter_x = x, scatter_y = y, scatter_z = z,
                  scatter_marker =
                    \<lparr>marker_size = sizes, marker_color = colors,
                     marker_symbol = ''circle'', marker_line_color = ''#000000'',
                     marker_line_width = 2\<rparr>,
                  scatter_name = ''DBS Electrode'',
                  scatter_text = map (\<lambda>(i, c). contact_text i c) (enumerate 0 cs)\<rparr>)))))"

text \<open>Here too the \<open>catch\<close> block logs the error and returns \<open>null\<close>.\<close>

definition createElectrodeTrace :: "electrode_data \<Rightarrow> scatter_trace option" where
  "createElectrodeTrace electrodeData =
     (case createElectrodeTrace_try electrodeData of Inl e \<Rightarrow> None | Inr r \<Rightarrow> r)"

section \<open>Rendering\<close>

text \<open>
  The part of the layout that depends on the payload: the ranges of the three axes,
  \<open>[0, tissue_data.physical_size[i]]\<close>. The other properties of the layout and of the
  configuration are constants.
\<close>

record layout =
  xaxis_range :: "real \<times> real option"
  yaxis_range :: "real \<times> real option"
  zaxis_range :: "real \<times> real option"

text \<open>
  What a call of \<open>renderVisualization\<close> does: nothing (the first guard), a warning about
  missing data and nothing else, a call of \<open>Plotly.newPlot\<close> with the traces and the
  layout, or the error message shown in place of the plot by the \<open>catch\<close> block.
\<close>

datatype outcome =
  Nothing
| Warning string
| NewPlot "trace list" layout
| ErrorMessage string

text \<open>An optional trace is pushed onto the list when it is not \<open>null\<close>.\<close>

definition push :: "('a \<Rightarrow> trace) \<Rightarrow> 'a option \<Rightarrow> trace list" where
  "push k t = (case t of None \<Rightarrow> [] | Some v \<Rightarrow> [k v])"

text \<open>The body of the \<open>try\<close> block of \<open>renderVisualization\<close>.\<close>

definition renderVisualization_try ::
  "nat \<Rightarrow> simulation_data \<Rightarrow> string \<Rightarrow> bool \<Rightarrow> real \<Rightarrow> exn + outcome" where
  "renderVisualization_try argument_limit simulationData visualizationMode showElectrode
       fieldThreshold =
     (case (field_data simulationData, tissue_data simulationData) of
        (Some fd, Some td) \<Rightarrow>
          let traces =
                (if visualizationMode = ''tissue'' \<or> visualizationMode = ''combined''
                 then push Isosurface (createTissueTrace td) else [])
                @ (if visualizationMode = ''field'' \<or> visualizationMode = ''combined''
                   then push Volume (createFieldTrace argument_limit fd fieldThreshold) else [])
                @ (case electrode_data simulationData of
                     Some ed \<Rightarrow>
                       if showElectrode then push Scatter3d (createElectrodeTrace ed) else []
                   | None \<Rightarrow> [])
          in (case physical_size td of
                None \<Rightarrow> Inl TypeError
              | Some extent \<Rightarrow>
                  Inr (NewPlot traces
                    \<lparr>xaxis_range = (0, at_index extent 0),
                     yaxis_range = (0, at_index extent 1),
                     zaxis_range = (0, at_index extent 2)\<rparr>))
      | _ \<Rightarrow> Inr (Warning ''Missing visualization data''))"

text \<open>
  \<open>renderVisualization\<close>, given the argument limit of the engine, the payload, whether
  the plot element is mounted (\<open>plotRef.current\<close>) and the view state. Every exception of
  the body is caught.
\<close>

definition renderVisualization ::
  "nat \<Rightarrow> simulation_data option \<Rightarrow> bool \<Rightarrow> string \<Rightarrow> bool \<Rightarrow> real \<Rightarrow> outcome" where
  "renderVisualization argument_limit simulationData plotRef visualizationMode showElectrode
       fieldThreshold =
     (case simulationData of
        None \<Rightarrow> Nothing
      | Some d \<Rightarrow>
          if \<not> plotRef then Nothing
          else
            (case renderVisualization_try argument_limit d visualizationMode showElectrode
                    fieldThreshold of
               Inl e \<Rightarrow> ErrorMessage ''Failed to render 3D visualization''
             | Inr r \<Rightarrow> r))"

text \<open>The traces handed to \<open>Plotly.newPlot\<close> by a call, none when it is not reached.\<close>

fun rendered_traces :: "outcome \<Rightarrow> trace list" where
  "rendered_traces (NewPlot ts l) = ts"
| "rendered_traces _ = []"

section \<open>Scene, orbit controls and animation (ThreeBrainVisualization)\<close>

text \<open>The pointer and wheel events, with the properties the handlers read.\<close>

record mouse_event =
  clientX :: real
  clientY :: real

record wheel_event =
  deltaY :: real

text \<open>The variables of the closure of \<open>addOrbitControls\<close>.\<close>

record orbit =
  isMouseDown :: bool
  mouseX :: real
  mouseY :: real
  targetRotationX :: real
  targetRotationY :: real
  rotationX :: real
  rotationY :: real

text \<open>The rotation of the brain group, \<open>brainRef.current.rotation\<close> (its x and y).\<close>

record rotation =
  rotation_x :: real
  rotation_y :: real

definition onMouseMove :: "mouse_event \<Rightarrow> orbit \<Rightarrow> orbit" where
  "onMouseMove event s =
     (if \<not> isMouseDown s then s
      else
        let deltaX = clientX event - mouseX s;
            deltaY = clientY event - mouseY s
        in s\<lparr>targetRotationY := targetRotationY s + deltaX * 0.01,
             targetRotationX := targetRotationX s + deltaY * 0.01,
             mouseX := clientX event,
             mouseY := clientY event\<rparr>)"

definition onMouseDown :: "mouse_event \<Rightarrow> orbit \<Rightarrow> orbit" where
  "onMouseDown event s = s\<lparr>isMouseDown := True, mouseX := clientX event, mouseY := clientY event\<rparr>"

definition onMouseUp :: "orbit \<Rightarrow> orbit" where
  "onMouseUp s = s\<lparr>isMouseDown := False\<rparr>"

text \<open>\<open>onWheel\<close> writes \<open>camera.position.z\<close>; the camera is given by its position.\<close>

definition onWheel :: "wheel_event \<Rightarrow> position \<Rightarrow> position" where
  "onWheel event camera =
     (let z = pos_z camera + deltaY event * 0.01
      in camera\<lparr>pos_z := max 2 (min 10 z)\<rparr>)"

text \<open>
  \<open>updateRotation\<close> changes the closure variables and, when \<open>brainRef.current\<close> is set,
  the rotation of the brain group.
\<close>

definition updateRotation :: "orbit \<Rightarrow> rotation option \<Rightarrow> orbit \<times> rotation option" where
  "updateRotation s brain =
     (let s' = s\<lparr>rotationX := rotationX s + (targetRotationX s - rotationX s) * 0.1,
                  rotationY := rotationY s + (targetRotationY s - rotationY s) * 0.1\<rparr>
      in (s', case brain of
                None \<Rightarrow> None
              | Some r \<Rightarrow> Some (r\<lparr>rotation_x := rotationX s', rotation_y := rotationY s'\<rparr>)))"

text \<open>
  The renderer: the \<open>updateRotation\<close> closure stored on it by \<open>addOrbitControls\<close>
  (\<open>None\<close> before), and the frames it has rendered, newest first, each with the brain
  rotation it showed.
\<close>

record renderer =
  controls :: "orbit option"
  frames :: "rotation option list"

text \<open>
  The refs and state of the component: \<open>None\<close> or \<open>False\<close> for a ref whose
  \<open>current\<close> is \<open>null\<close>. \<open>animationFrameRef\<close> counts the requests made by
  \<open>requestAnimationFrame\<close>.
\<close>

record component =
  mountRef :: bool
  isInitialized :: bool
  sceneRef :: bool
  cameraRef :: "position option"
  rendererRef :: "renderer option"
  brainRef :: "rotation option"
  animationFrameRef :: "nat option"

definition initial_component :: component where
  "initial_component =
     \<lparr>mountRef = True, isInitialized = False, sceneRef = False, cameraRef = None,
      rendererRef = None, brainRef = None, animationFrameRef = None\<rparr>"

definition initial_orbit :: orbit where
  "initial_orbit =
     \<lparr>isMouseDown = False, mouseX = 0, mouseY = 0, targetRotationX = 0,
      targetRotationY = 0, rotationX = 0, rotationY = 0\<rparr>"

text \<open>
  \<open>initializeScene\<close>: scene, camera at (0, 0, 5), renderer, the brain model
  (\<open>createBrainModel\<close> sets \<open>brainRef\<close>) and the orbit controls.
\<close>

definition initializeScene :: "component \<Rightarrow> component" where
  "initializeScene c =
     (if \<not> mountRef c \<or> isInitialized c then c
      else c\<lparr>sceneRef := True,
             cameraRef := Some \<lparr>pos_x = 0, pos_y = 0, pos_z = 5\<rparr>,
             rendererRef := Some \<lparr>controls = Some initial_orbit, frames = []\<rparr>,
             brainRef := Some \<lparr>rotation_x = 0, rotation_y = 0\<rparr>,
             isInitialized := True\<rparr>)"

text \<open>One call of \<open>animate\<close>: the guard, the rotation update, the render, the next request.\<close>

definition animate :: "component \<Rightarrow> component" where
  "animate c =
     (case (rendererRef c, sceneRef c, cameraRef c) of
        (Some r, True, Some camera) \<Rightarrow>
          let (r', brain') =
                (case controls r of
                   None \<Rightarrow> (r, brainRef c)
                 | Some s \<Rightarrow>
                     let (s', b') = updateRotation s (brainRef c)
                     in (r\<lparr>controls := Some s'\<rparr>, b'))
          in c\<lparr>rendererRef := Some (r'\<lparr>frames := brain' # frames r'\<rparr>),
               brainRef := brain',
               animationFrameRef :=
                 Some (case animationFrameRef c of None \<Rightarrow> 1 | Some n \<Rightarrow> n + 1)\<rparr>
      | _ \<Rightarrow> c)"

text \<open>
  The events of the component after mounting. The listeners exist once
  \<open>addOrbitControls\<close> has run, that is, once the renderer holds the controls; the
  camera of \<open>onWheel\<close> is the one of \<open>cameraRef\<close>. \<open>Frame\<close> is a call of
  \<open>animate\<close>. \<open>Tween v\<close> is a step of the animation library, whose tween started by
  \<open>createBrainModel\<close> writes the y rotation of the brain group between frames.
\<close>

datatype event =
  MouseMove mouse_event
| MouseDown mouse_event
| MouseUp
| Wheel wheel_event
| Frame
| Tween real

definition with_controls :: "(orbit \<Rightarrow> orbit) \<Rightarrow> component \<Rightarrow> component" where
  "with_controls h c =
     (case rendererRef c of
        None \<Rightarrow> c
      | Some r \<Rightarrow> c\<lparr>rendererRef := Some (r\<lparr>controls := map_option h (controls r)\<rparr>)\<rparr>)"

fun handle :: "component \<Rightarrow> event \<Rightarrow> component" where
  "handle c (MouseMove e) = with_controls (onMouseMove e) c"
| "handle c (MouseDown e) = with_controls (onMouseDown e) c"
| "handle c MouseUp = with_controls onMouseUp c"
| "handle c (Wheel e) =
     (case rendererRef c of
        None \<Rightarrow> c
      | Some r \<Rightarrow>
          (case controls r of
             None \<Rightarrow> c
           | Some s \<Rightarrow> c\<lparr>cameraRef := map_option (onWheel e) (cameraRef c)\<rparr>))"
| "handle c Frame = animate c"
| "handle c (Tween v) = c\<lparr>brainRef := map_option (\<lambda>r. r\<lparr>rotation_y := v\<rparr>) (brainRef c)\<rparr>"

text \<open>The component after mounting, initialisation and a sequence of events.\<close>

definition run :: "event list \<Rightarrow> component" where
  "run evs = foldl handle (initializeScene initial_component) evs"


text \<open>
  The invariants of the running component: the refs read by \<open>animate\<close> are set, and the
  zoom distance is between 2 and 10.
\<close>

definition ready :: "component \<Rightarrow> bool" where
  "ready c \<longleftrightarrow>
     sceneRef c \<and> cameraRef c \<noteq> None \<and> brainRef c \<noteq> None
     \<and> (case rendererRef c of None \<Rightarrow> False | Some r \<Rightarrow> controls r \<noteq> None)"

definition zoom_in_bounds :: "component \<Rightarrow> bool" where
  "zoom_in_bounds c \<longleftrightarrow>
     (case cameraRef c of None \<Rightarrow> False | Some camera \<Rightarrow> 2 \<le> pos_z camera \<and> pos_z camera \<le> 10)"

section \<open>Example inputs\<close>

definition example_field :: field_data where
  "example_field =
     \<lparr>x_coords = Some [0, 1], y_coords = Some [0, 1], z_coords = Some [0, 1],
      field_magnitude = Some [[[0, 0.5], [1, 0.25]], [[0, 0], [2, 0.75]]]\<rparr>"

definition example_electrode :: electrode_data where
  "example_electrode =
     \<lparr>contacts = Some [\<lparr>position = Some [1, 2, 3], is_active = True\<rparr>,
                        \<lparr>position = Some [1, 2, 4], is_active = False\<rparr>],
      electrode_position = Some [1, 2, 3]\<rparr>"

definition payload_without_tissue :: simulation_data where
  "payload_without_tissue =
     \<lparr>field_data = Some example_field, tissue_data = None,
      electrode_data = Some example_electrode\<rparr>"

text \<open>A tensor of shape (1, 1, 0): its outer array is not empty, its flattening is.\<close>

definition empty_rows_field :: field_data where
  "empty_rows_field =
     \<lparr>x_coords = Some [0], y_coords = Some [0], z_coords = Some [],
      field_magnitude = Some [[[]]]\<rparr>"

section \<open>Properties of the electrode position\<close>

lemma position_of_eq:
  "position_of c f a =
     \<lparr>pos_x = pos_x (anchor c) + ((if f = 0 then 130 else f) - 130) * 0.001,
      pos_y = pos_y (anchor c) + ((if a = 0 then 2.0 else a) - 2.0) * 0.05,
      pos_z = pos_z (anchor c)\<rparr>"
  by (simp add: position_of_def calculateElectrodePosition_def js_or_def Let_def)




text \<open>
  The bound on the amplitude cannot be raised to 4.2: at 250 Hz and 4.2 mA the point has
  left the region of contact 0.
\<close>

lemma position_outside_region_above:
  "\<not> in_own_region 0 (position_of 0 250 4.2)"
  by (simp add: in_own_region_def position_of_eq anchor_def dist2_def power2_eq_square)




text \<open>
  The position is computed from the contact, the frequency and the amplitude of the
  parameters; the condition and the pulse width are not read.
\<close>

lemma position_reads_three_fields:
  assumes "contact p = contact q" and "frequency p = frequency q"
    and "amplitude p = amplitude q"
  shows "calculateElectrodePosition p = calculateElectrodePosition q"
  using assms by (simp add: calculateElectrodePosition_def)

text \<open>
  Claim C6. With frequency 130 and amplitude 2.0 the positions of the contacts 0, 1, 2
  and 3 are pairwise distinct.
\<close>

theorem anchor_positions_distinct:
  "distinct (map (\<lambda>c. calculateElectrodePosition
       (ps\<lparr>contact := Some c, frequency := Some 130, amplitude := Some 2.0\<rparr>))
     [0, 1, 2, 3])"
  by (simp add: calculateElectrodePosition_def js_or_def anchor_def)

text \<open>
  Claim C9. A frequency of 0 gives the position of frequency 130, and an amplitude of 0
  the position of amplitude 2.0, for every contact and every other parameter: \<open>||\<close>
  replaces the zero by the default before the perturbation is computed.
\<close>

theorem zero_parameter_is_default:
  "calculateElectrodePosition (ps\<lparr>frequency := Some 0\<rparr>)
     = calculateElectrodePosition (ps\<lparr>frequency := Some 130\<rparr>)
   \<and> calculateElectrodePosition (ps\<lparr>amplitude := Some 0\<rparr>)
     = calculateElectrodePosition (ps\<lparr>amplitude := Some 2.0\<rparr>)"
  by (simp add: calculateElectrodePosition_def js_or_def)

section \<open>Properties of the trace builders and of rendering\<close>

lemma Math_max_Max: "vs \<noteq> [] \<Longrightarrow> Math_max vs = Finite (Max (set vs))"
proof (induction vs)
  case Nil
  then show ?case by simp
next
  case (Cons v vs)
  show ?case
  proof (cases "vs = []")
    case True
    then show ?thesis by simp
  next
    case False
    with Cons.IH have "Math_max vs = Finite (Max (set vs))"
      by simp
    with False show ?thesis
      by (simp add: Max_insert)
  qed
qed

text \<open>
  What the field builder does on a tensor whose flattening is not empty and fits the
  argument limit, and on one that does not fit.
\<close>

lemma createFieldTrace_nonempty:
  assumes "field_magnitude fd = Some m" and "flat3 m \<noteq> []"
    and "length (flat3 m) \<le> argument_limit"
  shows "createFieldTrace argument_limit fd t =
     (if Max (set (flat3 m)) = 0 then None
      else Some
        \<lparr>volume_x = x_coords fd, volume_y = y_coords fd, volume_z = z_coords fd,
         volume_value = m, isomin = t, isomax = Finite (Max (set (flat3 m))),
         surface_count = 5,
         colorscale =
           [(0, ''rgba(0,0,255,0)''), (0.2, ''rgba(0,100,255,0.3)''),
            (0.4, ''rgba(0,255,100,0.5)''), (0.6, ''rgba(255,255,0,0.7)''),
            (0.8, ''rgba(255,100,0,0.8)''), (1, ''rgba(255,0,0,0.9)'')],
         opacity = 0.7, name = ''Electric Field'',
         colorbar =
           \<lparr>colorbar_title = ''Field Strength (V/m)'', titleside = ''right'',
            thickness = 15, len = 0.7\<rparr>\<rparr>)"
proof -
  from assms(2) have "m \<noteq> []"
    by (auto simp: flat3_def)
  with assms show ?thesis
    by (simp add: createFieldTrace_def createFieldTrace_try_def Math_max_spread_def
        Math_max_Max Let_def)
qed

lemma createFieldTrace_over_limit:
  assumes "field_magnitude fd = Some m" and "argument_limit < length (flat3 m)"
  shows "createFieldTrace argument_limit fd t = None"
  using assms
  by (simp add: createFieldTrace_def createFieldTrace_try_def Math_max_spread_def Let_def)

lemma createFieldTrace_absent:
  "field_magnitude fd = None \<or> field_magnitude fd = Some []
   \<Longrightarrow> createFieldTrace argument_limit fd t = None"
  by (auto simp: createFieldTrace_def createFieldTrace_try_def)

text \<open>
  Claim C1, as the code has it. When \<open>tissue_data\<close> is absent, the render operation on a
  mounted plot logs the missing-data warning and returns: \<open>Plotly.newPlot\<close> is not called,
  so no trace is rendered, whatever the view mode, the electrode switch and the threshold.
  The outcome is not an exception.
\<close>

theorem render_without_tissue:
  assumes "tissue_data d = None"
  shows "renderVisualization argument_limit (Some d) plotRef mode showElectrode threshold
           = (if plotRef then Warning ''Missing visualization data'' else Nothing)
         \<and> rendered_traces
             (renderVisualization argument_limit (Some d) plotRef mode showElectrode threshold)
           = []"
  using assms
  by (simp add: renderVisualization_def renderVisualization_try_def split: option.splits)

theorem render_without_tissue_witness:
  "tissue_data payload_without_tissue = None
   \<and> renderVisualization 65536 (Some payload_without_tissue) True ''combined'' True 0.1
       = Warning ''Missing visualization data''"
  using render_without_tissue
      [where d = payload_without_tissue and argument_limit = 65536 and plotRef = True
        and mode = "''combined''" and showElectrode = True and threshold = "0.1"]
  by (simp add: payload_without_tissue_def)

text \<open>
  Claim C1, as stated, fails: for a payload without \<open>tissue_data\<close> whose field and
  electrode data give a trace each, in mode \<open>combined\<close> with the electrode shown, no trace
  is rendered.
\<close>

theorem render_without_tissue_counterexample:
  "createFieldTrace 65536 example_field 0.1 \<noteq> None
   \<and> createElectrodeTrace example_electrode \<noteq> None
   \<and> rendered_traces
       (renderVisualization 65536 (Some payload_without_tissue) True ''combined'' True 0.1)
     = []"
  by (simp add: createFieldTrace_def createFieldTrace_try_def Math_max_spread_def
      example_field_def flat3_def
      createElectrodeTrace_def createElectrodeTrace_try_def example_electrode_def
      coordinate_def renderVisualization_def renderVisualization_try_def
      payload_without_tissue_def)

text \<open>
  Claim C3 at a tensor of shape (1, 1, 0). The flattened sequence is empty, but the outer
  array is not, so the guard on \<open>field_magnitude.length\<close> lets it pass; \<open>Math.max\<close> of
  nothing is \<open>-Infinity\<close>, which is not 0, and the builder returns a volume trace with
  \<open>isomax = -Infinity\<close> where the claim has no trace. No argument is passed to
  \<open>Math.max\<close>, so this is so whatever the argument limit.
\<close>

theorem createFieldTrace_empty_rows:
  "flat3 [[[]]] = ([]::real list)
   \<and> map_option (\<lambda>t. (isomin t, isomax t, surface_count t))
       (createFieldTrace argument_limit empty_rows_field 0.1) = Some (0.1, NegInfinity, 5)"
  by (simp add: createFieldTrace_def createFieldTrace_try_def Math_max_spread_def
      empty_rows_field_def flat3_def)

text \<open>
  Claim C4. For thresholds \<open>t \<le> t'\<close> in [0.01, 1.0]: a field trace built at \<open>t\<close> has
  surface count 5 and \<open>isomin = t\<close>, and the trace built at \<open>t'\<close> is the same trace with
  \<open>isomin = t'\<close>, so with surface count 5 again; when no trace is built at \<open>t\<close>, none is
  built at \<open>t'\<close>. The threshold changes the cutoff only.
\<close>

theorem surface_count_fixed:
  assumes "0.01 \<le> t" and "t \<le> t'" and "t' \<le> 1"
  shows "case createFieldTrace argument_limit fd t of
           None \<Rightarrow> createFieldTrace argument_limit fd t' = None
         | Some tr \<Rightarrow>
             surface_count tr = 5 \<and> isomin tr = t
             \<and> createFieldTrace argument_limit fd t' = Some (tr\<lparr>isomin := t'\<rparr>)"
  by (simp add: createFieldTrace_def createFieldTrace_try_def Let_def
      split: option.splits sum.splits)

theorem surface_count_fixed_witness:
  "(0.01::real) \<le> 0.1 \<and> (0.1::real) \<le> 0.5 \<and> (0.5::real) \<le> 1
   \<and> map_option (\<lambda>t. (isomin t, surface_count t)) (createFieldTrace 65536 example_field 0.1)
       = Some (0.1, 5)
   \<and> map_option (\<lambda>t. (isomin t, surface_count t)) (createFieldTrace 65536 example_field 0.5)
       = Some (0.5, 5)"
  using surface_count_fixed
      [where t = "0.1" and t' = "0.5" and fd = example_field and argument_limit = 65536]
  by (simp add: createFieldTrace_def createFieldTrace_try_def Math_max_spread_def
      example_field_def flat3_def)

section \<open>Properties of the orbit controls and of the animation\<close>

lemma ready_initializeScene: "ready (initializeScene initial_component)"
  by (simp add: ready_def initializeScene_def initial_component_def)

lemma ready_handle: "ready c \<Longrightarrow> ready (handle c e)"
  by (cases e)
    (auto simp: ready_def with_controls_def animate_def updateRotation_def Let_def
      split: option.splits prod.splits bool.splits)

lemma ready_run: "ready (run evs)"
  unfolding run_def
  by (induction evs rule: rev_induct) (simp_all add: ready_initializeScene ready_handle)

lemma onWheel_clamped: "2 \<le> pos_z (onWheel e camera) \<and> pos_z (onWheel e camera) \<le> 10"
  by (simp add: onWheel_def Let_def)

lemma zoom_in_bounds_handle: "zoom_in_bounds c \<Longrightarrow> zoom_in_bounds (handle c e)"
  by (cases e)
    (auto simp: zoom_in_bounds_def with_controls_def animate_def onWheel_clamped Let_def
      split: option.splits prod.splits bool.splits)

lemma zoom_in_bounds_run: "zoom_in_bounds (run evs)"
  unfolding run_def
  by (induction evs rule: rev_induct)
    (simp_all add: zoom_in_bounds_handle,
      simp add: zoom_in_bounds_def initializeScene_def initial_component_def)

lemma animate_step:
  assumes "rendererRef c = Some r" and "controls r = Some s" and "sceneRef c"
    and "cameraRef c = Some camera" and "brainRef c = Some b"
  shows "animate c =
     (let s' = s\<lparr>rotationX := rotationX s + (targetRotationX s - rotationX s) * 0.1,
                  rotationY := rotationY s + (targetRotationY s - rotationY s) * 0.1\<rparr>;
          b' = b\<lparr>rotation_x := rotationX s', rotation_y := rotationY s'\<rparr>
      in c\<lparr>rendererRef := Some (r\<lparr>controls := Some s', frames := Some b' # frames r\<rparr>),
           brainRef := Some b',
           animationFrameRef :=
             Some (case animationFrameRef c of None \<Rightarrow> 1 | Some n \<Rightarrow> n + 1)\<rparr>)"
  using assms by (simp add: animate_def updateRotation_def Let_def)

text \<open>
  Claim C7. For a zoom distance in [2, 10] and every wheel delta, the handler sets the
  zoom distance to the sum of the old distance and delta times 0.01, clamped to [2, 10];
  the new distance is in [2, 10] again, and the other coordinates of the camera are kept.
\<close>

theorem onWheel_zoom_bounds:
  assumes "2 \<le> pos_z camera" and "pos_z camera \<le> 10"
  shows "pos_z (onWheel e camera) = max 2 (min 10 (pos_z camera + deltaY e * 0.01))
         \<and> 2 \<le> pos_z (onWheel e camera) \<and> pos_z (onWheel e camera) \<le> 10
         \<and> pos_x (onWheel e camera) = pos_x camera \<and> pos_y (onWheel e camera) = pos_y camera"
  by (simp add: onWheel_def Let_def)

theorem onWheel_zoom_bounds_witness:
  "(2::real) \<le> 5 \<and> (5::real) \<le> 10
   \<and> pos_z (onWheel \<lparr>deltaY = 1000\<rparr> \<lparr>pos_x = 0, pos_y = 0, pos_z = 5\<rparr>) = 10
   \<and> pos_z (onWheel \<lparr>deltaY = - 120\<rparr> \<lparr>pos_x = 0, pos_y = 0, pos_z = 5\<rparr>) = 3.8"
  using onWheel_zoom_bounds
      [where camera = "\<lparr>pos_x = 0, pos_y = 0, pos_z = 5\<rparr>" and e = "\<lparr>deltaY = 1000\<rparr>"]
    onWheel_zoom_bounds
      [where camera = "\<lparr>pos_x = 0, pos_y = 0, pos_z = 5\<rparr>" and e = "\<lparr>deltaY = - 120\<rparr>"]
  by simp

text \<open>
  Claim C8. In every state of the initialised component, whatever events came before, a
  call of \<open>animate\<close> replaces the current rotation by
  \<open>rotation + (target - rotation) * 0.1\<close> on both axes, leaves the targets as they are,
  sets the rotation of the brain group to the new current rotation, and renders the frame
  with that rotation.
\<close>

theorem animate_smooths_rotation:
  "\<exists>r s b r' s' b'.
     rendererRef (run evs) = Some r \<and> controls r = Some s \<and> brainRef (run evs) = Some b
     \<and> rendererRef (animate (run evs)) = Some r' \<and> controls r' = Some s'
     \<and> brainRef (animate (run evs)) = Some b'
     \<and> rotationX s' = rotationX s + (targetRotationX s - rotationX s) * 0.1
     \<and> rotationY s' = rotationY s + (targetRotationY s - rotationY s) * 0.1
     \<and> targetRotationX s' = targetRotationX s \<and> targetRotationY s' = targetRotationY s
     \<and> rotation_x b' = rotationX s' \<and> rotation_y b' = rotationY s'
     \<and> frames r' = Some b' # frames r"
proof -
  from ready_run [of evs] obtain r s camera b where
    "rendererRef (run evs) = Some r" "controls r = Some s" "sceneRef (run evs)"
    "cameraRef (run evs) = Some camera" "brainRef (run evs) = Some b"
    by (auto simp: ready_def split: option.splits)
  then show ?thesis
    by (simp add: animate_step Let_def)
qed

theorem animate_smooths_rotation_witness:
  "brainRef (animate (run
     [MouseDown \<lparr>clientX = 10, clientY = 20\<rparr>, MouseMove \<lparr>clientX = 30, clientY = 10\<rparr>,
      Tween 3]))
   = Some \<lparr>rotation_x = - 0.01, rotation_y = 0.02\<rparr>"
  using animate_smooths_rotation
      [of "[MouseDown \<lparr>clientX = 10, clientY = 20\<rparr>, MouseMove \<lparr>clientX = 30, clientY = 10\<rparr>,
            Tween 3]"]
  by (simp add: run_def initializeScene_def initial_component_def initial_orbit_def
      with_controls_def onMouseDown_def onMouseMove_def animate_def updateRotation_def)

text \<open>
  Claim C10. A mousemove while the button is not down leaves the state of the controls
  as it is: the target rotations, the stored pointer coordinates and all the rest, for
  every state (so after every sequence of events) and every pointer position.
\<close>

theorem onMouseMove_not_dragging:
  assumes "\<not> isMouseDown s"
  shows "onMouseMove e s = s"
  using assms by (simp add: onMouseMove_def)

theorem onMouseMove_not_dragging_witness:
  "\<not> isMouseDown initial_orbit
   \<and> onMouseMove \<lparr>clientX = 40, clientY = 25\<rparr> initial_orbit = initial_orbit"
  using onMouseMove_not_dragging
      [where s = initial_orbit and e = "\<lparr>clientX = 40, clientY = 25\<rparr>"]
  by (simp add: initial_orbit_def)

lemma mousemove_idle_component:
  assumes "rendererRef c = Some r" and "controls r = Some s" and "\<not> isMouseDown s"
  shows "handle c (MouseMove e) = c"
  using assms by (simp add: with_controls_def onMouseMove_def)

end
